theory Spec2Isabelle
  imports Main "HOL-Library.Sublist"
begin

section \<open>JavaScript values and built-ins used by main.js\<close>

text \<open>
  Strings are lists of code units; this development covers code units below 256, so a
  JavaScript string is a \<open>string\<close>. A value that is \<open>null\<close> or a string (a nullable
  text column, an absent form field) is a \<open>string option\<close>.

  A field of a JSON request body can be any JSON value. The code only asks \<open>typeof\<close> of
  it, so what a number carries is never read.
\<close>

datatype jsval =
    JUndefined
  | JNull
  | JBool bool
  | JNum int
  | JStr string
  | JArr "jsval list"
  | JObj "(string \<times> jsval) list"

fun typeof :: "jsval \<Rightarrow> string" where
  "typeof JUndefined = ''undefined''"
| "typeof JNull = ''object''"
| "typeof (JBool b) = ''boolean''"
| "typeof (JNum n) = ''number''"
| "typeof (JStr s) = ''string''"
| "typeof (JArr xs) = ''object''"
| "typeof (JObj kvs) = ''object''"

text \<open>Truthiness of a value that is null or a string: null and the empty string are falsy.\<close>

fun truthy :: "string option \<Rightarrow> bool" where
  "truthy None = False"
| "truthy (Some s) = (s \<noteq> [])"

text \<open>
  White space as \<open>String.prototype.trim\<close> and \<open>parseInt\<close> strip it (WhiteSpace and
  LineTerminator), among the code units below 256: TAB, LF, VT, FF, CR, SP, NBSP.
\<close>

definition is_ws :: "char \<Rightarrow> bool" where
  "is_ws c = (of_char c \<in> {9::nat, 10, 11, 12, 13, 32, 160})"

definition trim :: "string \<Rightarrow> string" where
  "trim s = rev (dropWhile is_ws (rev (dropWhile is_ws s)))"

definition dec_digit :: "char \<Rightarrow> bool" where
  "dec_digit c = (48 \<le> (of_char c :: nat) \<and> (of_char c :: nat) \<le> 57)"

definition digit_val :: "char \<Rightarrow> int" where
  "digit_val c = int (of_char c) - 48"

definition digits_val :: "string \<Rightarrow> int" where
  "digits_val z = foldl (\<lambda>a c. 10 * a + digit_val c) 0 z"

text \<open>
  \<open>parseInt(s, 10)\<close>: skip leading white space, take an optional sign, then the longest
  prefix of decimal digits; no digit gives \<open>NaN\<close>, which is \<open>None\<close> here. Whatever follows
  the digits is ignored. The result is the mathematical integer: the rounding of a
  Number above \<open>2^53\<close> is not part of this development.
\<close>

definition parseInt10 :: "string \<Rightarrow> int option" where
  "parseInt10 s =
     (let t = dropWhile is_ws s;
          sgn = (case t of c # _ \<Rightarrow> if c = CHR ''-'' then - 1 else 1 | [] \<Rightarrow> (1::int));
          u = (case t of c # r \<Rightarrow> if c = CHR ''-'' \<or> c = CHR ''+'' then r else t | [] \<Rightarrow> t);
          z = takeWhile dec_digit u
      in if z = [] then None else Some (sgn * digits_val z))"

text \<open>\<open>ToString\<close> of a form field that may be absent: \<open>undefined\<close> prints as its name.\<close>

fun to_string :: "string option \<Rightarrow> string" where
  "to_string None = ''undefined''"
| "to_string (Some s) = s"

text \<open>\<open>`${n}`\<close> for an integer-valued Number: its decimal digits.\<close>

definition digit_char :: "nat \<Rightarrow> char" where
  "digit_char d = char_of (48 + d)"

fun show_nat :: "nat \<Rightarrow> string" where
  "show_nat n = (if n < 10 then [digit_char n] else show_nat (n div 10) @ [digit_char (n mod 10)])"

declare show_nat.simps [simp del]

definition show_int :: "int \<Rightarrow> string" where
  "show_int i = (if i < 0 then CHR ''-'' # show_nat (nat (- i)) else show_nat (nat i))"

section \<open>The two stores\<close>

text \<open>
  A row of table \<open>inventory\<close> as the driver returns it. \<open>description\<close> and
  \<open>photo_filename\<close> may be \<open>null\<close>: the code guards both (\<open>item.description || ''\<close>,
  \<open>if (item.photo_filename)\<close>).
\<close>

record row =
  row_id :: int
  inventory_name :: string
  description :: "string option"
  photo_filename :: "string option"

type_synonym blob = string

text \<open>
  The state the handlers act on: the table (in insertion order), the next AUTO_INCREMENT
  value, and the cache directory as a map from file name to content.
\<close>

record state =
  inventory :: "row list"
  auto_increment :: int
  cache :: "string \<rightharpoonup> blob"

text \<open>\<open>SELECT ... FROM inventory WHERE id = ?\<close>\<close>

definition select_by_id :: "int \<Rightarrow> state \<Rightarrow> row list" where
  "select_by_id n st = filter (\<lambda>r. row_id r = n) (inventory st)"

text \<open>\<open>SELECT ... FROM inventory ORDER BY id\<close>\<close>

definition select_all :: "state \<Rightarrow> row list" where
  "select_all st = sort_key row_id (inventory st)"

text \<open>\<open>COALESCE(?, column)\<close>: the parameter unless it is \<open>NULL\<close>.\<close>

fun coalesce :: "'a option \<Rightarrow> 'a \<Rightarrow> 'a" where
  "coalesce None old = old"
| "coalesce (Some v) old = v"

text \<open>
  \<open>UPDATE inventory SET inventory_name = COALESCE(?, inventory_name),
  description = COALESCE(?, description) WHERE id = ?\<close>
\<close>

definition update_metadata :: "string option \<Rightarrow> string option \<Rightarrow> int \<Rightarrow> state \<Rightarrow> state" where
  "update_metadata p_name p_descr n st =
     st\<lparr>inventory :=
          map (\<lambda>r. if row_id r = n
                    then r\<lparr>inventory_name := coalesce p_name (inventory_name r),
                           description := (case p_descr of None \<Rightarrow> description r | Some d \<Rightarrow> Some d)\<rparr>
                    else r)
              (inventory st)\<rparr>"

text \<open>\<open>UPDATE inventory SET photo_filename = ? WHERE id = ?\<close>\<close>

definition update_photo :: "string \<Rightarrow> int \<Rightarrow> state \<Rightarrow> state" where
  "update_photo f n st =
     st\<lparr>inventory :=
          map (\<lambda>r. if row_id r = n then r\<lparr>photo_filename := Some f\<rparr> else r) (inventory st)\<rparr>"

text \<open>\<open>DELETE FROM inventory WHERE id = ?\<close>\<close>

definition delete_row :: "int \<Rightarrow> state \<Rightarrow> state" where
  "delete_row n st = st\<lparr>inventory := filter (\<lambda>r. row_id r \<noteq> n) (inventory st)\<rparr>"

text \<open>
  \<open>INSERT INTO inventory (inventory_name, description, photo_filename) VALUES (?, ?, ?)\<close>:
  the new row takes the AUTO_INCREMENT value, which is returned as \<open>insertId\<close>.
\<close>

definition insert_row :: "string \<Rightarrow> string \<Rightarrow> string option \<Rightarrow> state \<Rightarrow> int \<times> state" where
  "insert_row nm descr photo st =
     (auto_increment st,
      st\<lparr>inventory := inventory st @
             [\<lparr>row_id = auto_increment st, inventory_name = nm,
               description = Some descr, photo_filename = photo\<rparr>],
         auto_increment := auto_increment st + 1\<rparr>)"

text \<open>\<open>fs.existsSync\<close> and \<open>fs.unlink\<close> on a file of the cache directory.\<close>

definition existsSync :: "string \<Rightarrow> state \<Rightarrow> bool" where
  "existsSync f st = (cache st f \<noteq> None)"

definition unlink :: "string \<Rightarrow> state \<Rightarrow> state" where
  "unlink f st = st\<lparr>cache := (cache st)(f := None)\<rparr>"

text \<open>
  An uploaded file as multer hands it over in \<open>req.file\<close>: multer has generated the name
  and written the content to the cache directory before the handler runs.
  \<open>path.basename(req.file.path)\<close> is that name.
\<close>

record upload =
  filename :: string
  content :: blob

definition multer_single :: "upload option \<Rightarrow> state \<Rightarrow> state" where
  "multer_single file st =
     (case file of None \<Rightarrow> st
      | Some f \<Rightarrow> st\<lparr>cache := (cache st)(filename f \<mapsto> content f)\<rparr>)"

section \<open>Responses\<close>

record dto =
  dto_id :: int
  dto_inventory_name :: string
  dto_description :: "string option"
  photoUrl :: "string option"

definition photo_url :: "int \<Rightarrow> string" where
  "photo_url n = ''/inventory/'' @ show_int n @ ''/photo''"

text \<open>
  \<open>itemToDto\<close>: a row has no \<open>photoFilename\<close> property, so
  \<open>item.photoFilename || item.photo_filename || null\<close> is the column when it is truthy.
\<close>

definition itemToDto :: "row \<Rightarrow> dto" where
  "itemToDto item =
     (let photoFilename = (if truthy (photo_filename item) then photo_filename item else None)
      in \<lparr>dto_id = row_id item,
          dto_inventory_name = inventory_name item,
          dto_description = description item,
          photoUrl = (if truthy photoFilename then Some (photo_url (row_id item)) else None)\<rparr>)"

datatype payload =
    Json_error string
  | Json_item dto
  | Json_items "dto list"
  | Sent string
  | Image_jpeg blob

text \<open>
  What a request ends in: a response with its status, or a \<open>TypeError\<close> that nothing
  catches (\<open>itemToDto(rows[0])\<close> on an empty result).
\<close>

datatype reply = Reply nat payload | Uncaught_TypeError

definition internal_error :: reply where
  "internal_error = Reply 500 (Json_error ''internal error'')"

definition invalid_id :: reply where
  "invalid_id = Reply 400 (Json_error ''invalid id'')"

section \<open>Handlers\<close>

text \<open>
  Each handler takes the request's parts it reads, one flag per query it may issue
  (\<open>err\<close>, \<open>err2\<close>, \<open>err3\<close>: the query fails), and the state. A handler that only reads
  returns the reply; one that writes returns the reply and the new state.
\<close>

text \<open>\<open>app.get('/inventory')\<close>\<close>

definition get_inventory :: "bool \<Rightarrow> state \<Rightarrow> reply" where
  "get_inventory err st =
     (if err then internal_error else Reply 200 (Json_items (map itemToDto (select_all st))))"

text \<open>\<open>app.get('/inventory/:id')\<close>\<close>

definition get_inventory_id :: "string \<Rightarrow> bool \<Rightarrow> state \<Rightarrow> reply" where
  "get_inventory_id idp err st =
     (case parseInt10 idp of
        None \<Rightarrow> invalid_id
      | Some n \<Rightarrow>
          if err then internal_error
          else (case select_by_id n st of
                  [] \<Rightarrow> Reply 404 (Json_error ''not found'')
                | item # _ \<Rightarrow> Reply 200 (Json_item (itemToDto item))))"

text \<open>\<open>typeof v === 'string' ? v : null\<close>\<close>

definition string_or_null :: "jsval \<Rightarrow> string option" where
  "string_or_null v =
     (if typeof v = ''string'' then (case v of JStr s \<Rightarrow> Some s | _ \<Rightarrow> None) else None)"

text \<open>
  \<open>app.put('/inventory/:id')\<close>; \<open>b_name\<close> and \<open>b_descr\<close> are the fields
  \<open>inventory_name\<close> and \<open>description\<close> of the JSON body.
\<close>

definition put_inventory_id ::
  "string \<Rightarrow> jsval \<Rightarrow> jsval \<Rightarrow> bool \<Rightarrow> bool \<Rightarrow> bool \<Rightarrow> state \<Rightarrow> reply \<times> state" where
  "put_inventory_id idp b_name b_descr err err2 err3 st =
     (case parseInt10 idp of
        None \<Rightarrow> (invalid_id, st)
      | Some n \<Rightarrow>
          if err then (internal_error, st)
          else if select_by_id n st = [] then (Reply 404 (Json_error ''not found''), st)
          else if err2 then (internal_error, st)
          else
            (let st' = update_metadata (string_or_null b_name) (string_or_null b_descr) n st
             in if err3 then (internal_error, st')
                else (case select_by_id n st' of
                        [] \<Rightarrow> (Uncaught_TypeError, st')
                      | r # _ \<Rightarrow> (Reply 200 (Json_item (itemToDto r)), st'))))"

text \<open>
  \<open>app.get('/inventory/:id/photo')\<close>; \<open>fs.existsSync\<close> followed by
  \<open>fs.createReadStream\<close> is the lookup of the file in the cache directory.
\<close>

definition get_inventory_id_photo :: "string \<Rightarrow> bool \<Rightarrow> state \<Rightarrow> reply" where
  "get_inventory_id_photo idp err st =
     (case parseInt10 idp of
        None \<Rightarrow> invalid_id
      | Some n \<Rightarrow>
          if err then internal_error
          else (case select_by_id n st of
                  [] \<Rightarrow> Reply 404 (Json_error ''photo not found'')
                | r # _ \<Rightarrow>
                    (case photo_filename r of
                       None \<Rightarrow> Reply 404 (Json_error ''photo not found'')
                     | Some photoFilename \<Rightarrow>
                         if photoFilename = [] then Reply 404 (Json_error ''photo not found'')
                         else (case cache st photoFilename of
                                 None \<Rightarrow> Reply 404 (Json_error ''photo not found'')
                               | Some bytes \<Rightarrow> Reply 200 (Image_jpeg bytes)))))"

text \<open>
  \<open>if (item.photo_filename) { if (fs.existsSync(p)) fs.unlink(p, () => {}) }\<close>, as the
  handlers for the photo upload and for deletion both have it.
\<close>

definition unlink_photo_of :: "row \<Rightarrow> state \<Rightarrow> state" where
  "unlink_photo_of item st =
     (case photo_filename item of
        None \<Rightarrow> st
      | Some f \<Rightarrow> if f \<noteq> [] \<and> existsSync f st then unlink f st else st)"

text \<open>\<open>if (req.file) fs.unlink(req.file.path, () => {})\<close>\<close>

definition unlink_upload :: "upload option \<Rightarrow> state \<Rightarrow> state" where
  "unlink_upload file st = (case file of None \<Rightarrow> st | Some f \<Rightarrow> unlink (filename f) st)"

text \<open>
  \<open>app.put('/inventory/:id/photo', upload.single('photo'), ...)\<close>, on the state multer
  leaves.
\<close>

definition put_inventory_id_photo ::
  "string \<Rightarrow> upload option \<Rightarrow> bool \<Rightarrow> bool \<Rightarrow> bool \<Rightarrow> state \<Rightarrow> reply \<times> state" where
  "put_inventory_id_photo idp file err err2 err3 st =
     (case parseInt10 idp of
        None \<Rightarrow> (invalid_id, unlink_upload file st)
      | Some n \<Rightarrow>
          (case file of
             None \<Rightarrow> (Reply 400 (Json_error ''photo file is required''), st)
           | Some f \<Rightarrow>
               if err then (internal_error, unlink (filename f) st)
               else (case select_by_id n st of
                       [] \<Rightarrow> (Reply 404 (Json_error ''not found''), unlink (filename f) st)
                     | item # _ \<Rightarrow>
                         (let st1 = unlink_photo_of item st;
                              newPhotoFilename = filename f
                          in if err2 then (internal_error, unlink (filename f) st1)
                             else
                               (let st2 = update_photo newPhotoFilename n st1
                                in if err3 then (internal_error, st2)
                                   else (case select_by_id n st2 of
                                           [] \<Rightarrow> (Uncaught_TypeError, st2)
                                         | r # _ \<Rightarrow>
                                             (Reply 200 (Json_item (itemToDto r)), st2)))))))"

text \<open>\<open>x || ''\<close> for a value that is null or a string.\<close>

fun or_empty :: "string option \<Rightarrow> string" where
  "or_empty None = []"
| "or_empty (Some s) = s"

text \<open>
  The page \<open>app.post('/search')\<close> sends for a row; \<open>with_photo\<close> is
  \<open>req.body.has_photo !== undefined && item.photo_filename\<close>.
\<close>

definition search_description :: "row \<Rightarrow> bool \<Rightarrow> string" where
  \<open>search_description item with_photo =
     (let description = or_empty (description item);
          photoUrl = photo_url (row_id item)
      in if with_photo
         then (if description \<noteq> [] then description @ ''<br>'' else description)
              @ ''Photo link: <a href="'' @ photoUrl @ ''">'' @ photoUrl @ ''</a>''
         else description)\<close>

definition search_photoBlock :: "row \<Rightarrow> bool \<Rightarrow> string" where
  \<open>search_photoBlock item with_photo =
     (let photoUrl = photo_url (row_id item)
      in if with_photo
         then ''\<newline>''
              @ ''          <p>\<newline>''
              @ ''            <img src="'' @ photoUrl @ ''"\<newline>''
              @ ''                 alt="photo of '' @ inventory_name item @ ''"\<newline>''
              @ ''                 style="max-width:300px;">\<newline>''
              @ ''          </p>\<newline>''
              @ ''        ''
         else [])\<close>

definition search_page :: "row \<Rightarrow> bool \<Rightarrow> string" where
  \<open>search_page item with_photo =
     ''\<newline>''
     @ ''        <!DOCTYPE html>\<newline>''
     @ ''        <html>\<newline>''
     @ ''        <head>\<newline>''
     @ ''          <meta charset="utf-8">\<newline>''
     @ ''          <title>Search result</title>\<newline>''
     @ ''        </head>\<newline>''
     @ ''        <body>\<newline>''
     @ ''          <h1>Search result</h1>\<newline>''
     @ ''          <p><strong>ID:</strong> '' @ show_int (row_id item) @ ''</p>\<newline>''
     @ ''          <p><strong>Name:</strong> '' @ inventory_name item @ ''</p>\<newline>''
     @ ''          <p><strong>Description:</strong><br>''
     @ search_description item with_photo @ ''</p>\<newline>''
     @ ''          '' @ search_photoBlock item with_photo @ ''\<newline>''
     @ ''          <p><a href="/SearchForm.html">Back to search</a></p>\<newline>''
     @ ''        </body>\<newline>''
     @ ''        </html>\<newline>''
     @ ''      ''\<close>

text \<open>
  \<open>app.post('/search')\<close>; \<open>b_id\<close> and \<open>b_has_photo\<close> are the form fields \<open>id\<close> and
  \<open>has_photo\<close>, \<open>None\<close> when the form does not have them.
\<close>

definition post_search :: "string option \<Rightarrow> string option \<Rightarrow> bool \<Rightarrow> state \<Rightarrow> reply" where
  "post_search b_id b_has_photo err st =
     (case parseInt10 (to_string b_id) of
        None \<Rightarrow> Reply 400 (Sent ''Invalid id'')
      | Some n \<Rightarrow>
          if err then Reply 500 (Sent ''Internal error'')
          else (case select_by_id n st of
                  [] \<Rightarrow> Reply 404 (Sent ''Item not found'')
                | item # _ \<Rightarrow>
                    Reply 200 (Sent (search_page item
                      (b_has_photo \<noteq> None \<and> truthy (photo_filename item))))))"

text \<open>
  \<open>app.post('/register', upload.single('photo'), ...)\<close>, on the state multer leaves;
  \<open>b_name\<close> and \<open>b_descr\<close> are the form's text fields \<open>inventory_name\<close> and
  \<open>description\<close>.
\<close>

definition post_register ::
  "string option \<Rightarrow> string option \<Rightarrow> upload option \<Rightarrow> bool \<Rightarrow> bool \<Rightarrow> state \<Rightarrow> reply \<times> state" where
  "post_register b_name b_descr file err err2 st =
     (let description = or_empty b_descr
      in if \<not> truthy b_name \<or> trim (or_empty b_name) = []
         then (Reply 400 (Json_error ''inventory_name is required''), unlink_upload file st)
         else
           (let photoFilename = map_option filename file
            in if err then (internal_error, unlink_upload file st)
               else
                 (let (insertedId, st') =
                        insert_row (trim (or_empty b_name)) description photoFilename st
                  in if err2 then (internal_error, st')
                     else (case select_by_id insertedId st' of
                             [] \<Rightarrow> (Uncaught_TypeError, st')
                           | r # _ \<Rightarrow> (Reply 201 (Json_item (itemToDto r)), st')))))"

text \<open>\<open>app.delete('/inventory/:id')\<close>\<close>

definition delete_inventory_id :: "string \<Rightarrow> bool \<Rightarrow> bool \<Rightarrow> state \<Rightarrow> reply \<times> state" where
  "delete_inventory_id idp err err2 st =
     (case parseInt10 idp of
        None \<Rightarrow> (invalid_id, st)
      | Some n \<Rightarrow>
          if err then (internal_error, st)
          else (case select_by_id n st of
                  [] \<Rightarrow> (Reply 404 (Json_error ''not found''), st)
                | item # _ \<Rightarrow>
                    if err2 then (internal_error, st)
                    else (Reply 200 (Json_item (itemToDto item)),
                          unlink_photo_of item (delete_row n st))))"

section \<open>Routing\<close>

text \<open>
  The five paths of the service, as the router matches them; \<open>:id\<close> is the path
  parameter, still a string.
\<close>

datatype route =
    Register
  | Inventory
  | Inventory_id string
  | Inventory_id_photo string
  | Search

text \<open>
  A request that has reached the router: \<open>form\<close> holds the text fields of a multipart or
  urlencoded body, \<open>json\<close> the fields of a JSON body (\<open>JUndefined\<close> when absent), and
  \<open>req_file\<close> the file of field \<open>photo\<close>.
\<close>

record request =
  req_method :: string
  req_route :: route
  form :: "string \<Rightarrow> string option"
  json :: "string \<Rightarrow> jsval"
  req_file :: "upload option"

text \<open>\<open>res.sendStatus(405)\<close>\<close>

definition method_not_allowed :: reply where
  "method_not_allowed = Reply 405 (Sent ''Method Not Allowed'')"

text \<open>
  The \<open>app.all\<close> guards come first; a request they let through reaches the handler
  registered for its method, after multer where the route has it.
\<close>

definition dispatch :: "request \<Rightarrow> bool \<Rightarrow> bool \<Rightarrow> bool \<Rightarrow> state \<Rightarrow> reply \<times> state" where
  "dispatch req err err2 err3 st =
     (case req_route req of
        Register \<Rightarrow>
          if req_method req = ''POST''
          then post_register (form req ''inventory_name'') (form req ''description'')
                 (req_file req) err err2 (multer_single (req_file req) st)
          else (method_not_allowed, st)
      | Inventory \<Rightarrow>
          if req_method req = ''GET'' then (get_inventory err st, st)
          else (method_not_allowed, st)
      | Inventory_id idp \<Rightarrow>
          if req_method req \<in> set [''GET'', ''PUT'', ''DELETE'']
          then (if req_method req = ''GET'' then (get_inventory_id idp err st, st)
                else if req_method req = ''PUT''
                then put_inventory_id idp (json req ''inventory_name'') (json req ''description'')
                       err err2 err3 st
                else delete_inventory_id idp err err2 st)
          else (method_not_allowed, st)
      | Inventory_id_photo idp \<Rightarrow>
          if req_method req \<in> set [''GET'', ''PUT'']
          then (if req_method req = ''GET'' then (get_inventory_id_photo idp err st, st)
                else put_inventory_id_photo idp (req_file req) err err2 err3
                       (multer_single (req_file req) st))
          else (method_not_allowed, st)
      | Search \<Rightarrow>
          if req_method req = ''POST''
          then (post_search (form req ''id'') (form req ''has_photo'') err st, st)
          else (method_not_allowed, st))"

text \<open>
  The AUTO_INCREMENT invariant of the table: every id in use is below the next value
  handed out.
\<close>

definition ids_below_auto_increment :: "state \<Rightarrow> bool" where
  "ids_below_auto_increment st = list_all (\<lambda>r. row_id r < auto_increment st) (inventory st)"

section \<open>Decimal digits: printing and parsing\<close>

lemma digits_val_snoc: "digits_val (z @ [c]) = 10 * digits_val z + digit_val c"
  by (simp add: digits_val_def)

lemma of_char_digit_char: "d < 10 \<Longrightarrow> (of_char (digit_char d) :: nat) = 48 + d"
  by (simp add: digit_char_def)

lemma dec_digit_digit_char: "d < 10 \<Longrightarrow> dec_digit (digit_char d)"
  by (simp add: dec_digit_def of_char_digit_char)

lemma digit_val_digit_char: "d < 10 \<Longrightarrow> digit_val (digit_char d) = int d"
  by (simp add: digit_val_def of_char_digit_char)

lemma show_nat_not_Nil: "show_nat n \<noteq> []"
  by (subst show_nat.simps) simp

lemma show_nat_digits: "list_all dec_digit (show_nat n)"
proof (induction n rule: show_nat.induct)
  case (1 n)
  show ?case
  proof (cases "n < 10")
    case True
    then show ?thesis by (subst show_nat.simps) (simp add: dec_digit_digit_char)
  next
    case False
    with 1 show ?thesis by (subst show_nat.simps) (simp add: dec_digit_digit_char)
  qed
qed

lemma digits_val_show_nat: "digits_val (show_nat n) = int n"
proof (induction n rule: show_nat.induct)
  case (1 n)
  show ?case
  proof (cases "n < 10")
    case True
    then show ?thesis
      by (subst show_nat.simps) (simp add: digits_val_def digit_val_digit_char)
  next
    case False
    with 1 have ih: "digits_val (show_nat (n div 10)) = int (n div 10)" by simp
    have split: "10 * int (n div 10) + int (n mod 10) = int n"
      by presburger
    from False have "digits_val (show_nat n) = 10 * int (n div 10) + int (n mod 10)"
      by (subst show_nat.simps) (simp add: digits_val_snoc digit_val_digit_char ih)
    with split show ?thesis by simp
  qed
qed

lemma dec_digit_not_ws: "dec_digit c \<Longrightarrow> \<not> is_ws c"
  by (auto simp: dec_digit_def is_ws_def)

lemma dec_digit_not_sign: "dec_digit c \<Longrightarrow> c \<noteq> CHR ''-'' \<and> c \<noteq> CHR ''+''"
  by (auto simp: dec_digit_def)

lemma parseInt10_digits:
  assumes "z \<noteq> []" "list_all dec_digit z"
  shows "parseInt10 z = Some (digits_val z)"
proof -
  from assms obtain c r where z: "z = c # r" and c: "dec_digit c"
    by (cases z) auto
  have tw: "takeWhile dec_digit z = z"
    using assms(2) by (simp add: list_all_iff)
  have dw: "dropWhile is_ws z = z"
    using dec_digit_not_ws [OF c] by (simp add: z)
  have "parseInt10 z = (if takeWhile dec_digit z = [] then None
                        else Some (1 * digits_val (takeWhile dec_digit z)))"
    unfolding parseInt10_def Let_def dw
    using dec_digit_not_sign [OF c] by (simp add: z)
  then show ?thesis
    unfolding tw using assms(1) by simp
qed

lemma parseInt10_minus_digits:
  assumes "z \<noteq> []" "list_all dec_digit z"
  shows "parseInt10 (CHR ''-'' # z) = Some (- digits_val z)"
proof -
  have tw: "takeWhile dec_digit z = z"
    using assms(2) by (simp add: list_all_iff)
  have "\<not> is_ws CHR ''-''" by (simp add: is_ws_def)
  then have "parseInt10 (CHR ''-'' # z) =
      (if takeWhile dec_digit z = [] then None
       else Some (- 1 * digits_val (takeWhile dec_digit z)))"
    by (simp add: parseInt10_def Let_def)
  then show ?thesis
    unfolding tw using assms(1) by simp
qed

lemma parseInt10_show_int: "parseInt10 (show_int i) = Some i"
proof (cases "i < 0")
  case True
  then show ?thesis
    by (simp add: show_int_def parseInt10_minus_digits show_nat_not_Nil show_nat_digits
        digits_val_show_nat)
next
  case False
  then show ?thesis
    by (simp add: show_int_def parseInt10_digits show_nat_not_Nil show_nat_digits
        digits_val_show_nat)
qed

text \<open>An id without any decimal digit does not parse.\<close>

lemma parseInt10_no_digit:
  assumes "\<forall>c \<in> set s. \<not> dec_digit c"
  shows "parseInt10 s = None"
proof -
  define t where "t = dropWhile is_ws s"
  define u where "u = (case t of c # r \<Rightarrow> if c = CHR ''-'' \<or> c = CHR ''+'' then r else t | [] \<Rightarrow> t)"
  have "set t \<subseteq> set s"
    unfolding t_def by (rule set_dropWhileD [THEN subsetI])
  moreover have "set u \<subseteq> set t"
    by (auto simp: u_def split: list.splits)
  ultimately have "\<forall>c \<in> set u. \<not> dec_digit c"
    using assms by blast
  then have "takeWhile dec_digit u = []"
    by (cases u) simp_all
  then show ?thesis
    by (simp add: parseInt10_def Let_def t_def [symmetric] u_def [symmetric])
qed

section \<open>Evaluation on concrete requests\<close>

lemmas js_eval = parseInt10_def is_ws_def dec_digit_def digits_val_def digit_val_def Let_def

lemma parseInt10_1: "parseInt10 ''1'' = Some 1"
  by (simp add: js_eval)

lemma show_int_1: "show_int 1 = ''1''"
  by code_simp

section \<open>Properties of the statements and of the helpers\<close>

lemma update_metadata_select:
  "select_by_id n (update_metadata p q n st) =
     map (\<lambda>r. r\<lparr>inventory_name := coalesce p (inventory_name r),
                description := (case q of None \<Rightarrow> description r | Some d \<Rightarrow> Some d)\<rparr>)
         (select_by_id n st)"
  by (simp add: select_by_id_def update_metadata_def filter_map o_def)

lemma update_metadata_None_None: "update_metadata None None n st = st"
proof -
  have "map (\<lambda>r. if row_id r = n
                 then r\<lparr>inventory_name := coalesce None (inventory_name r),
                        description := (case None of None \<Rightarrow> description r | Some d \<Rightarrow> Some d)\<rparr>
                 else r) xs = xs" for xs :: "row list"
    by (induction xs) simp_all
  then show ?thesis
    unfolding update_metadata_def by simp
qed

lemma update_metadata_others:
  "filter (\<lambda>x. row_id x \<noteq> n) (inventory (update_metadata p q n st))
     = filter (\<lambda>x. row_id x \<noteq> n) (inventory st)"
proof -
  have "filter (\<lambda>x. row_id x \<noteq> n)
          (map (\<lambda>r. if row_id r = n
                 then r\<lparr>inventory_name := coalesce p (inventory_name r),
                        description := (case q of None \<Rightarrow> description r | Some d \<Rightarrow> Some d)\<rparr>
                 else r) xs) = filter (\<lambda>x. row_id x \<noteq> n) xs" for xs :: "row list"
    by (induction xs) simp_all
  then show ?thesis
    unfolding update_metadata_def by simp
qed

lemma update_metadata_cache: "cache (update_metadata p q n st) = cache st"
  by (simp add: update_metadata_def)

lemma string_or_null_JStr: "string_or_null (JStr s) = Some s"
  by (simp add: string_or_null_def)

lemma string_or_null_non_string: "typeof v \<noteq> ''string'' \<Longrightarrow> string_or_null v = None"
  by (simp add: string_or_null_def)

lemma string_or_null_JUndefined: "string_or_null JUndefined = None"
  by (simp add: string_or_null_def)

lemma put_inventory_id_found:
  assumes "parseInt10 idp = Some n" "select_by_id n st = r # rs"
  shows "put_inventory_id idp b_name b_descr False False False st =
           (Reply 200 (Json_item (itemToDto
              (r\<lparr>inventory_name := coalesce (string_or_null b_name) (inventory_name r),
                 description := (case string_or_null b_descr of
                                   None \<Rightarrow> description r | Some d \<Rightarrow> Some d)\<rparr>))),
            update_metadata (string_or_null b_name) (string_or_null b_descr) n st)"
  using assms by (simp add: put_inventory_id_def update_metadata_select)

lemma trim_Nil: "trim [] = []"
  by (simp add: trim_def)

lemma trim_all_ws: "list_all is_ws s \<Longrightarrow> trim s = []"
proof -
  assume "list_all is_ws s"
  then have d: "dropWhile is_ws s = []"
    by (induction s) simp_all
  show ?thesis
    unfolding trim_def d by simp
qed

lemma multer_single_db:
  "inventory (multer_single file st) = inventory st"
  "auto_increment (multer_single file st) = auto_increment st"
  by (simp_all add: multer_single_def split: option.splits)

lemma select_fresh_id:
  assumes "ids_below_auto_increment st"
  shows "select_by_id (auto_increment st) st = []"
proof -
  from assms have "\<forall>r \<in> set (inventory st). row_id r \<noteq> auto_increment st"
    by (auto simp: ids_below_auto_increment_def list_all_iff)
  then show ?thesis
    by (simp add: select_by_id_def filter_empty_conv)
qed

lemma select_inserted:
  assumes "select_by_id (auto_increment st) st = []"
  shows "select_by_id (auto_increment st) (snd (insert_row nm descr photo st))
           = [\<lparr>row_id = auto_increment st, inventory_name = nm,
               description = Some descr, photo_filename = photo\<rparr>]"
  using assms by (simp add: select_by_id_def insert_row_def)

lemma sublist_skip: "sublist xs zs \<Longrightarrow> sublist xs (ys @ zs)"
  by (auto simp: sublist_def) (metis append.assoc)

lemma sublist_here: "sublist xs (xs @ zs)"
  by simp

lemma sublist_search_description:
  "sublist (or_empty (description item)) (search_description item w)"
  by (simp add: search_description_def Let_def)

text \<open>
  The AUTO_INCREMENT invariant holds after every request if it held before.
\<close>

lemma dispatch_keeps_ids_below_auto_increment:
  assumes "ids_below_auto_increment st"
  shows "ids_below_auto_increment (snd (dispatch req err err2 err3 st))"
proof -
  have upd: "list_all (\<lambda>r. row_id r < a) (map (\<lambda>r. if row_id r = n then f r else r) xs)"
    if "list_all (\<lambda>r. row_id r < a) xs" "\<And>r. row_id (f r) = row_id r"
    for a n xs and f :: "row \<Rightarrow> row"
    using that by (induction xs) auto
  have cache_only: "ids_below_auto_increment (s\<lparr>cache := c\<rparr>) = ids_below_auto_increment s" for s c
    by (simp add: ids_below_auto_increment_def)
  have unl: "ids_below_auto_increment (unlink f s) = ids_below_auto_increment s" for f s
    by (simp add: unlink_def cache_only)
  have unlu: "ids_below_auto_increment (unlink_upload f s) = ids_below_auto_increment s" for f s
    by (simp add: unlink_upload_def unl split: option.splits)
  have unlp: "ids_below_auto_increment (unlink_photo_of r s) = ids_below_auto_increment s" for r s
    by (simp add: unlink_photo_of_def unl split: option.splits)
  have mul: "ids_below_auto_increment (multer_single f s) = ids_below_auto_increment s" for f s
    by (simp add: multer_single_def cache_only split: option.splits)
  have um: "ids_below_auto_increment s \<Longrightarrow> ids_below_auto_increment (update_metadata p q n s)"
    for p q n s
    by (simp add: ids_below_auto_increment_def update_metadata_def upd)
  have up: "ids_below_auto_increment s \<Longrightarrow> ids_below_auto_increment (update_photo f n s)"
    for f n s
    by (simp add: ids_below_auto_increment_def update_photo_def upd)
  have del: "ids_below_auto_increment s \<Longrightarrow> ids_below_auto_increment (delete_row n s)" for n s
    by (simp add: ids_below_auto_increment_def delete_row_def list_all_iff)
  have ins: "ids_below_auto_increment s \<Longrightarrow> ids_below_auto_increment (snd (insert_row a b c s))"
    for a b c s
    by (auto simp: ids_below_auto_increment_def insert_row_def list_all_iff)
  have reg: "ids_below_auto_increment s \<Longrightarrow>
             ids_below_auto_increment (snd (post_register a b f err err2 s))" for a b f s
    using ins [of s]
    by (auto simp: post_register_def Let_def unlu insert_row_def split: list.splits prod.splits)
  have put: "ids_below_auto_increment s \<Longrightarrow>
             ids_below_auto_increment (snd (put_inventory_id i a b err err2 err3 s))" for i a b s
    by (auto simp: put_inventory_id_def Let_def um split: option.splits list.splits)
  have dele: "ids_below_auto_increment s \<Longrightarrow>
             ids_below_auto_increment (snd (delete_inventory_id i err err2 s))" for i s
    by (auto simp: delete_inventory_id_def unlp del split: option.splits list.splits)
  have putp: "ids_below_auto_increment s \<Longrightarrow>
             ids_below_auto_increment (snd (put_inventory_id_photo i f err err2 err3 s))" for i f s
    by (auto simp: put_inventory_id_photo_def Let_def unl unlu unlp up
             split: option.splits list.splits)
  show ?thesis
    using assms
    by (cases "req_route req") (simp_all add: dispatch_def reg put dele putp mul)
qed

section \<open>Identifiers that do not parse\<close>

text \<open>An id made of decimal digits followed by something else parses as the digits.\<close>

lemma parseInt10_digit_prefix:
  assumes "z \<noteq> []" and "list_all dec_digit z"
    and "case rest of [] \<Rightarrow> True | c # _ \<Rightarrow> \<not> dec_digit c"
  shows "parseInt10 (z @ rest) = Some (digits_val z)"
proof -
  from assms(1,2) obtain c r where z: "z = c # r" and c: "dec_digit c"
    by (cases z) auto
  have "takeWhile dec_digit rest = []"
    using assms(3) by (cases rest) simp_all
  moreover have "takeWhile dec_digit (z @ rest) = z @ takeWhile dec_digit rest"
    using assms(2) by (intro takeWhile_append2) (simp add: list_all_iff)
  ultimately have tw: "takeWhile dec_digit (z @ rest) = z"
    by simp
  have dw: "dropWhile is_ws (z @ rest) = z @ rest"
    using dec_digit_not_ws [OF c] by (simp add: z)
  have "parseInt10 (z @ rest) =
          (if takeWhile dec_digit (z @ rest) = [] then None
           else Some (1 * digits_val (takeWhile dec_digit (z @ rest))))"
    unfolding parseInt10_def Let_def dw
    using dec_digit_not_sign [OF c] by (simp add: z)
  then show ?thesis
    unfolding tw using assms(1) by simp
qed

text \<open>
  C1, as the code has it: on every route that takes an id, when \<open>parseInt(id, 10)\<close> is
  \<open>NaN\<close> the request is answered 400 whatever the store holds and whether or not a
  query would fail; the store is not consulted. (The upload handler first discards the
  uploaded file.) An id that starts with decimal digits and goes on with anything that is
  not a digit is read as the number its digits spell: every route treats it exactly as it
  treats the digits alone, and \<open>getById\<close> answers with the item of that number, or 404 when
  there is none.
\<close>

theorem id_is_read_by_parseInt:
  "(parseInt10 idp = None \<longrightarrow>
        get_inventory_id idp err st = Reply 400 (Json_error ''invalid id'')
      \<and> put_inventory_id idp b_name b_descr err err2 err3 st
          = (Reply 400 (Json_error ''invalid id''), st)
      \<and> delete_inventory_id idp err err2 st = (Reply 400 (Json_error ''invalid id''), st)
      \<and> get_inventory_id_photo idp err st = Reply 400 (Json_error ''invalid id'')
      \<and> put_inventory_id_photo idp file err err2 err3 st
          = (Reply 400 (Json_error ''invalid id''), unlink_upload file st)
      \<and> post_search (Some idp) b_has_photo err st = Reply 400 (Sent ''Invalid id''))
   \<and> (z \<noteq> [] \<and> list_all dec_digit z \<and> (case rest of [] \<Rightarrow> True | c # _ \<Rightarrow> \<not> dec_digit c) \<longrightarrow>
        parseInt10 (z @ rest) = Some (digits_val z)
      \<and> get_inventory_id (z @ rest) False st
          = (case select_by_id (digits_val z) st of
               [] \<Rightarrow> Reply 404 (Json_error ''not found'')
             | item # _ \<Rightarrow> Reply 200 (Json_item (itemToDto item)))
      \<and> get_inventory_id (z @ rest) err st = get_inventory_id z err st
      \<and> put_inventory_id (z @ rest) b_name b_descr err err2 err3 st
          = put_inventory_id z b_name b_descr err err2 err3 st
      \<and> delete_inventory_id (z @ rest) err err2 st = delete_inventory_id z err err2 st
      \<and> get_inventory_id_photo (z @ rest) err st = get_inventory_id_photo z err st
      \<and> put_inventory_id_photo (z @ rest) file err err2 err3 st
          = put_inventory_id_photo z file err err2 err3 st
      \<and> post_search (Some (z @ rest)) b_has_photo err st
          = post_search (Some z) b_has_photo err st)"
proof (intro conjI impI)
  assume nan: "parseInt10 idp = None"
  show "get_inventory_id idp err st = Reply 400 (Json_error ''invalid id'')"
    using nan by (simp add: get_inventory_id_def invalid_id_def)
  show "put_inventory_id idp b_name b_descr err err2 err3 st
          = (Reply 400 (Json_error ''invalid id''), st)"
    using nan by (simp add: put_inventory_id_def invalid_id_def)
  show "delete_inventory_id idp err err2 st = (Reply 400 (Json_error ''invalid id''), st)"
    using nan by (simp add: delete_inventory_id_def invalid_id_def)
  show "get_inventory_id_photo idp err st = Reply 400 (Json_error ''invalid id'')"
    using nan by (simp add: get_inventory_id_photo_def invalid_id_def)
  show "put_inventory_id_photo idp file err err2 err3 st
          = (Reply 400 (Json_error ''invalid id''), unlink_upload file st)"
    using nan by (simp add: put_inventory_id_photo_def invalid_id_def)
  show "post_search (Some idp) b_has_photo err st = Reply 400 (Sent ''Invalid id'')"
    using nan by (simp add: post_search_def)
next
  assume h: "z \<noteq> [] \<and> list_all dec_digit z
             \<and> (case rest of [] \<Rightarrow> True | c # _ \<Rightarrow> \<not> dec_digit c)"
  then have p1: "parseInt10 (z @ rest) = Some (digits_val z)"
    by (simp add: parseInt10_digit_prefix)
  from h have p2: "parseInt10 z = Some (digits_val z)"
    by (simp add: parseInt10_digits)
  show "parseInt10 (z @ rest) = Some (digits_val z)"
    by (rule p1)
  show "get_inventory_id (z @ rest) False st
          = (case select_by_id (digits_val z) st of
               [] \<Rightarrow> Reply 404 (Json_error ''not found'')
             | item # _ \<Rightarrow> Reply 200 (Json_item (itemToDto item)))"
    by (simp add: get_inventory_id_def p1)
  show "get_inventory_id (z @ rest) err st = get_inventory_id z err st"
    unfolding get_inventory_id_def p1 p2 by (rule refl)
  show "put_inventory_id (z @ rest) b_name b_descr err err2 err3 st
          = put_inventory_id z b_name b_descr err err2 err3 st"
    unfolding put_inventory_id_def p1 p2 by (rule refl)
  show "delete_inventory_id (z @ rest) err err2 st = delete_inventory_id z err err2 st"
    unfolding delete_inventory_id_def p1 p2 by (rule refl)
  show "get_inventory_id_photo (z @ rest) err st = get_inventory_id_photo z err st"
    unfolding get_inventory_id_photo_def p1 p2 by (rule refl)
  show "put_inventory_id_photo (z @ rest) file err err2 err3 st
          = put_inventory_id_photo z file err err2 err3 st"
    unfolding put_inventory_id_photo_def p1 p2 by (rule refl)
  show "post_search (Some (z @ rest)) b_has_photo err st
          = post_search (Some z) b_has_photo err st"
    unfolding post_search_def to_string.simps p1 p2 by (rule refl)
qed

theorem id_is_read_by_parseInt_witness:
  "parseInt10 ''abc'' = None
   \<and> get_inventory_id ''abc'' False
       \<lparr>inventory = [\<lparr>row_id = 12, inventory_name = ''Drill'',
                      description = Some ''Cordless'', photo_filename = None\<rparr>],
        auto_increment = 13, cache = Map.empty\<rparr>
     = Reply 400 (Json_error ''invalid id'')
   \<and> parseInt10 (''12'' @ ''abc'') = Some 12
   \<and> get_inventory_id (''12'' @ ''abc'') False
       \<lparr>inventory = [\<lparr>row_id = 12, inventory_name = ''Drill'',
                      description = Some ''Cordless'', photo_filename = None\<rparr>],
        auto_increment = 13, cache = Map.empty\<rparr>
     = Reply 200 (Json_item \<lparr>dto_id = 12, dto_inventory_name = ''Drill'',
                             dto_description = Some ''Cordless'', photoUrl = None\<rparr>)"
proof -
  let ?st = "\<lparr>inventory = [\<lparr>row_id = 12, inventory_name = ''Drill'',
                            description = Some ''Cordless'', photo_filename = None\<rparr>],
              auto_increment = 13, cache = Map.empty\<rparr>"
  have h1: "parseInt10 ''abc'' = None"
    by (simp add: js_eval)
  have h2: "''12'' \<noteq> [] \<and> list_all dec_digit ''12''
            \<and> (case ''abc'' of [] \<Rightarrow> True | c # _ \<Rightarrow> \<not> dec_digit c)"
    by (simp add: dec_digit_def)
  have v: "digits_val ''12'' = 12"
    by (simp add: digits_val_def digit_val_def)
  note t = id_is_read_by_parseInt [of "''abc''" False ?st _ _ _ _ _ _ "''12''" "''abc''"]
  from t h1 have a: "get_inventory_id ''abc'' False ?st = Reply 400 (Json_error ''invalid id'')"
    by blast
  from t h2 have b: "parseInt10 (''12'' @ ''abc'') = Some (digits_val ''12'')"
    and c: "get_inventory_id (''12'' @ ''abc'') False ?st
              = (case select_by_id (digits_val ''12'') ?st of
                   [] \<Rightarrow> Reply 404 (Json_error ''not found'')
                 | item # _ \<Rightarrow> Reply 200 (Json_item (itemToDto item)))"
    by blast+
  from c have c': "get_inventory_id (''12'' @ ''abc'') False ?st
              = Reply 200 (Json_item \<lparr>dto_id = 12, dto_inventory_name = ''Drill'',
                             dto_description = Some ''Cordless'', photoUrl = None\<rparr>)"
    by (simp add: v select_by_id_def itemToDto_def)
  from b have b': "parseInt10 (''12'' @ ''abc'') = Some 12"
    by (simp only: v)
  from h1 a b' c' show ?thesis by (intro conjI)
qed

text \<open>
  C1 as stated fails: \<open>12abc\<close> and \<open>13abc\<close> are not numeric strings, yet on a store
  that holds item 12 only, \<open>GET /inventory/12abc\<close> is answered 200 with item 12, and
  \<open>GET /inventory/13abc\<close> and a search for \<open>13abc\<close> are answered 404.
\<close>

theorem non_numeric_id_is_looked_up:
  "\<not> list_all dec_digit ''12abc'' \<and> \<not> list_all dec_digit ''13abc''
   \<and> get_inventory_id ''12abc'' False
       \<lparr>inventory = [\<lparr>row_id = 12, inventory_name = ''Drill'',
                      description = Some ''Cordless'', photo_filename = None\<rparr>],
        auto_increment = 13, cache = Map.empty\<rparr>
     = Reply 200 (Json_item \<lparr>dto_id = 12, dto_inventory_name = ''Drill'',
                             dto_description = Some ''Cordless'', photoUrl = None\<rparr>)
   \<and> get_inventory_id ''13abc'' False
       \<lparr>inventory = [\<lparr>row_id = 12, inventory_name = ''Drill'',
                      description = Some ''Cordless'', photo_filename = None\<rparr>],
        auto_increment = 13, cache = Map.empty\<rparr>
     = Reply 404 (Json_error ''not found'')
   \<and> post_search (Some ''13abc'') None False
       \<lparr>inventory = [\<lparr>row_id = 12, inventory_name = ''Drill'',
                      description = Some ''Cordless'', photo_filename = None\<rparr>],
        auto_increment = 13, cache = Map.empty\<rparr>
     = Reply 404 (Sent ''Item not found'')"
  by (simp add: get_inventory_id_def post_search_def select_by_id_def itemToDto_def js_eval)

section \<open>Names after an update\<close>

text \<open>
  C2 fails on the code: \<open>register\<close> refuses a blank name, but \<open>updateMetadata\<close> writes
  any string it is given. Registering \<open>Drill\<close> and then sending
  \<open>{"inventory_name": ""}\<close> to \<open>PUT /inventory/1\<close> is answered 200 and leaves the row
  with an empty name.
\<close>

theorem update_stores_empty_name:
  "dispatch \<lparr>req_method = ''POST'', req_route = Register,
             form = [''inventory_name'' \<mapsto> ''Drill'', ''description'' \<mapsto> ''Cordless''],
             json = (\<lambda>k. JUndefined), req_file = None\<rparr>
     False False False \<lparr>inventory = [], auto_increment = 1, cache = Map.empty\<rparr>
   = (Reply 201 (Json_item \<lparr>dto_id = 1, dto_inventory_name = ''Drill'',
                            dto_description = Some ''Cordless'', photoUrl = None\<rparr>),
      \<lparr>inventory = [\<lparr>row_id = 1, inventory_name = ''Drill'',
                     description = Some ''Cordless'', photo_filename = None\<rparr>],
       auto_increment = 2, cache = Map.empty\<rparr>)
   \<and> dispatch \<lparr>req_method = ''PUT'', req_route = Inventory_id ''1'',
               form = (\<lambda>k. None), json = (\<lambda>k. JUndefined)(''inventory_name'' := JStr []),
               req_file = None\<rparr>
       False False False
       \<lparr>inventory = [\<lparr>row_id = 1, inventory_name = ''Drill'',
                      description = Some ''Cordless'', photo_filename = None\<rparr>],
        auto_increment = 2, cache = Map.empty\<rparr>
   = (Reply 200 (Json_item \<lparr>dto_id = 1, dto_inventory_name = [],
                            dto_description = Some ''Cordless'', photoUrl = None\<rparr>),
      \<lparr>inventory = [\<lparr>row_id = 1, inventory_name = [],
                     description = Some ''Cordless'', photo_filename = None\<rparr>],
       auto_increment = 2, cache = Map.empty\<rparr>)"
  by (simp add: dispatch_def post_register_def put_inventory_id_def multer_single_def
      unlink_upload_def insert_row_def select_by_id_def update_metadata_def itemToDto_def
      string_or_null_def trim_def js_eval)

section \<open>A photo replacement whose update fails\<close>

text \<open>
  C3 fails on the code: the handler removes the old file before it runs the
  \<open>UPDATE\<close>. When that statement fails, the new file is removed as well and the row
  still names the old file: the photo that was served before the request is answered
  with 404 after it.
\<close>

theorem failed_photo_update_loses_old_photo:
  "get_inventory_id_photo ''1'' False
     \<lparr>inventory = [\<lparr>row_id = 1, inventory_name = ''Drill'',
                    description = Some ''Cordless'', photo_filename = Some ''old''\<rparr>],
      auto_increment = 2, cache = [''old'' \<mapsto> ''OLD JPEG'']\<rparr>
   = Reply 200 (Image_jpeg ''OLD JPEG'')
   \<and> dispatch \<lparr>req_method = ''PUT'', req_route = Inventory_id_photo ''1'',
               form = (\<lambda>k. None), json = (\<lambda>k. JUndefined),
               req_file = Some \<lparr>filename = ''new'', content = ''NEW JPEG''\<rparr>\<rparr>
       False True False
       \<lparr>inventory = [\<lparr>row_id = 1, inventory_name = ''Drill'',
                      description = Some ''Cordless'', photo_filename = Some ''old''\<rparr>],
        auto_increment = 2, cache = [''old'' \<mapsto> ''OLD JPEG'']\<rparr>
   = (Reply 500 (Json_error ''internal error''),
      \<lparr>inventory = [\<lparr>row_id = 1, inventory_name = ''Drill'',
                     description = Some ''Cordless'', photo_filename = Some ''old''\<rparr>],
       auto_increment = 2, cache = Map.empty\<rparr>)
   \<and> get_inventory_id_photo ''1'' False
       \<lparr>inventory = [\<lparr>row_id = 1, inventory_name = ''Drill'',
                      description = Some ''Cordless'', photo_filename = Some ''old''\<rparr>],
        auto_increment = 2, cache = Map.empty\<rparr>
   = Reply 404 (Json_error ''photo not found'')"
  by (simp add: dispatch_def put_inventory_id_photo_def get_inventory_id_photo_def
      multer_single_def unlink_photo_of_def unlink_def existsSync_def select_by_id_def
      internal_error_def js_eval)

section \<open>The search page\<close>

text \<open>
  C4 as stated fails: the page carries the name and the description as they are stored.
  A name \<open><script>alert(1)</script>\<close> and a description \<open><b>Cordless</b>\<close> appear in
  the page as markup.
\<close>

theorem search_page_markup_not_escaped:
  \<open>post_search (Some ''1'') None False
     \<lparr>inventory = [\<lparr>row_id = 1, inventory_name = ''<script>alert(1)</script>'',
                    description = Some ''<b>Cordless</b>'', photo_filename = None\<rparr>],
      auto_increment = 2, cache = Map.empty\<rparr>
   = Reply 200 (Sent
      (''\<newline>''
       @ ''        <!DOCTYPE html>\<newline>''
       @ ''        <html>\<newline>''
       @ ''        <head>\<newline>''
       @ ''          <meta charset="utf-8">\<newline>''
       @ ''          <title>Search result</title>\<newline>''
       @ ''        </head>\<newline>''
       @ ''        <body>\<newline>''
       @ ''          <h1>Search result</h1>\<newline>''
       @ ''          <p><strong>ID:</strong> 1</p>\<newline>''
       @ ''          <p><strong>Name:</strong> <script>alert(1)</script></p>\<newline>''
       @ ''          <p><strong>Description:</strong><br><b>Cordless</b></p>\<newline>''
       @ ''          \<newline>''
       @ ''          <p><a href="/SearchForm.html">Back to search</a></p>\<newline>''
       @ ''        </body>\<newline>''
       @ ''        </html>\<newline>''
       @ ''      ''))\<close>
  by (simp add: post_search_def search_page_def search_description_def search_photoBlock_def
      select_by_id_def show_int_1 parseInt10_1)

text \<open>
  C4, as the code has it: for an item that is found, \<open>searchRender\<close> answers 200 with a
  page that contains the decimal id, the name and the description (empty when null) as
  contiguous, unchanged text; nothing is escaped.
\<close>

theorem search_page_embeds_fields_verbatim:
  assumes "parseInt10 (to_string b_id) = Some n" and "select_by_id n st = item # rest"
  shows "\<exists>page. post_search b_id b_has_photo False st = Reply 200 (Sent page)
           \<and> sublist (show_int (row_id item)) page
           \<and> sublist (inventory_name item) page
           \<and> sublist (or_empty (description item)) page"
proof -
  define w where "w = (b_has_photo \<noteq> None \<and> truthy (photo_filename item))"
  have run: "post_search b_id b_has_photo False st = Reply 200 (Sent (search_page item w))"
    using assms by (simp add: post_search_def w_def)
  have c1: "sublist (show_int (row_id item)) (search_page item w)"
    unfolding search_page_def by (intro sublist_skip sublist_here)
  have c2: "sublist (inventory_name item) (search_page item w)"
    unfolding search_page_def by (intro sublist_skip sublist_here)
  have "sublist (search_description item w) (search_page item w)"
    unfolding search_page_def by (intro sublist_skip sublist_here)
  with sublist_search_description [of item w]
  have c3: "sublist (or_empty (description item)) (search_page item w)"
    by (rule sublist_order.order_trans)
  show ?thesis
    by (rule exI [of _ "search_page item w"]) (intro conjI run c1 c2 c3)
qed

theorem search_page_embeds_fields_verbatim_witness:
  "\<exists>page. post_search (Some ''1'') None False
             \<lparr>inventory = [\<lparr>row_id = 1, inventory_name = ''Drill'',
                            description = Some ''Cordless'', photo_filename = None\<rparr>],
              auto_increment = 2, cache = Map.empty\<rparr>
           = Reply 200 (Sent page)
        \<and> sublist ''1'' page \<and> sublist ''Drill'' page \<and> sublist ''Cordless'' page"
proof -
  let ?r = "\<lparr>row_id = 1, inventory_name = ''Drill'',
             description = Some ''Cordless'', photo_filename = None\<rparr>"
  let ?st = "\<lparr>inventory = [?r], auto_increment = 2, cache = Map.empty\<rparr>"
  have h1: "parseInt10 (to_string (Some ''1'')) = Some 1"
    by (simp add: parseInt10_1)
  have h2: "select_by_id 1 ?st = ?r # []"
    by (simp add: select_by_id_def)
  from search_page_embeds_fields_verbatim [OF h1 h2, of None]
  show ?thesis by (simp add: show_int_1)
qed

section \<open>Photo retrieval\<close>

text \<open>
  C5: for an id that parses and a query that succeeds, \<open>getPhoto\<close> answers 404 exactly
  when the row is absent, or the row has no photo file name, or the named file is not in
  the cache directory; every 404 it sends has the same body \<open>photo not found\<close>; and when
  the row names a file that exists, the file is streamed with status 200.
\<close>

theorem photo_not_found_cases:
  assumes "parseInt10 idp = Some n" and "\<not> err"
  shows "(get_inventory_id_photo idp err st = Reply 404 (Json_error ''photo not found'')
            \<longleftrightarrow> select_by_id n st = []
                \<or> (\<exists>r rs. select_by_id n st = r # rs \<and> \<not> truthy (photo_filename r))
                \<or> (\<exists>r rs f. select_by_id n st = r # rs \<and> photo_filename r = Some f
                             \<and> \<not> existsSync f st))
       \<and> (\<forall>p. get_inventory_id_photo idp err st = Reply 404 p
                \<longrightarrow> p = Json_error ''photo not found'')
       \<and> (\<forall>r rs f bytes. select_by_id n st = r # rs \<and> photo_filename r = Some f \<and> f \<noteq> []
                \<and> cache st f = Some bytes
                \<longrightarrow> get_inventory_id_photo idp err st = Reply 200 (Image_jpeg bytes))"
proof -
  let ?nf = "Reply 404 (Json_error ''photo not found'')"
  let ?get = "get_inventory_id_photo idp err st"
  have ev: "?get = (case select_by_id n st of
                      [] \<Rightarrow> ?nf
                    | r # _ \<Rightarrow>
                        (case photo_filename r of
                           None \<Rightarrow> ?nf
                         | Some f \<Rightarrow>
                             if f = [] then ?nf
                             else (case cache st f of
                                     None \<Rightarrow> ?nf
                                   | Some bytes \<Rightarrow> Reply 200 (Image_jpeg bytes))))"
    using assms by (simp add: get_inventory_id_photo_def)
  have a: "?get = ?nf
            \<longleftrightarrow> select_by_id n st = []
                \<or> (\<exists>r rs. select_by_id n st = r # rs \<and> \<not> truthy (photo_filename r))
                \<or> (\<exists>r rs f. select_by_id n st = r # rs \<and> photo_filename r = Some f
                             \<and> \<not> existsSync f st)"
  proof (cases "select_by_id n st")
    case Nil
    then show ?thesis by (simp add: ev)
  next
    case (Cons r rs)
    show ?thesis
    proof (cases "photo_filename r")
      case None
      with Cons show ?thesis by (simp add: ev)
    next
      case (Some f)
      show ?thesis
      proof (cases "cache st f")
        case None
        with Cons Some show ?thesis by (simp add: ev existsSync_def)
      next
        case (Some bytes)
        with Cons \<open>photo_filename r = Some f\<close> show ?thesis
          by (simp add: ev existsSync_def)
      qed
    qed
  qed
  have b: "\<forall>p. ?get = Reply 404 p \<longrightarrow> p = Json_error ''photo not found''"
    unfolding ev by (simp split: list.splits option.splits)
  have c: "\<forall>r rs f bytes. select_by_id n st = r # rs \<and> photo_filename r = Some f \<and> f \<noteq> []
                \<and> cache st f = Some bytes
                \<longrightarrow> ?get = Reply 200 (Image_jpeg bytes)"
    unfolding ev by simp
  from a b c show ?thesis by (intro conjI)
qed

theorem photo_not_found_cases_witness:
  "get_inventory_id_photo ''1'' False \<lparr>inventory = [], auto_increment = 1, cache = Map.empty\<rparr>
     = Reply 404 (Json_error ''photo not found'')
   \<and> get_inventory_id_photo ''1'' False
       \<lparr>inventory = [\<lparr>row_id = 1, inventory_name = ''Drill'', description = Some ''Cordless'',
                      photo_filename = None\<rparr>],
        auto_increment = 2, cache = Map.empty\<rparr>
     = Reply 404 (Json_error ''photo not found'')
   \<and> get_inventory_id_photo ''1'' False
       \<lparr>inventory = [\<lparr>row_id = 1, inventory_name = ''Drill'', description = Some ''Cordless'',
                      photo_filename = Some ''a1''\<rparr>],
        auto_increment = 2, cache = Map.empty\<rparr>
     = Reply 404 (Json_error ''photo not found'')
   \<and> get_inventory_id_photo ''1'' False
       \<lparr>inventory = [\<lparr>row_id = 1, inventory_name = ''Drill'', description = Some ''Cordless'',
                      photo_filename = Some ''a1''\<rparr>],
        auto_increment = 2, cache = [''a1'' \<mapsto> ''JPEG'']\<rparr>
     = Reply 200 (Image_jpeg ''JPEG'')"
proof -
  let ?r0 = "\<lparr>row_id = 1, inventory_name = ''Drill'', description = Some ''Cordless'',
              photo_filename = None\<rparr>"
  let ?r1 = "\<lparr>row_id = 1, inventory_name = ''Drill'', description = Some ''Cordless'',
              photo_filename = Some ''a1''\<rparr>"
  let ?s0 = "\<lparr>inventory = [], auto_increment = 1, cache = Map.empty\<rparr>"
  let ?s1 = "\<lparr>inventory = [?r0], auto_increment = 2, cache = Map.empty\<rparr>"
  let ?s2 = "\<lparr>inventory = [?r1], auto_increment = 2, cache = Map.empty\<rparr>"
  let ?s3 = "\<lparr>inventory = [?r1], auto_increment = 2, cache = [''a1'' \<mapsto> ''JPEG'']\<rparr>"
  have no: "\<not> False" by simp
  note t = photo_not_found_cases [OF parseInt10_1 no]
  have "select_by_id 1 ?s0 = []"
    by (simp add: select_by_id_def)
  with t [of ?s0] have w0: "get_inventory_id_photo ''1'' False ?s0
                              = Reply 404 (Json_error ''photo not found'')"
    by blast
  have "select_by_id 1 ?s1 = ?r0 # [] \<and> \<not> truthy (photo_filename ?r0)"
    by (simp add: select_by_id_def)
  with t [of ?s1] have w1: "get_inventory_id_photo ''1'' False ?s1
                              = Reply 404 (Json_error ''photo not found'')"
    by blast
  have "select_by_id 1 ?s2 = ?r1 # [] \<and> photo_filename ?r1 = Some ''a1''
          \<and> \<not> existsSync ''a1'' ?s2"
    by (simp add: select_by_id_def existsSync_def)
  with t [of ?s2] have w2: "get_inventory_id_photo ''1'' False ?s2
                              = Reply 404 (Json_error ''photo not found'')"
    by blast
  have "select_by_id 1 ?s3 = ?r1 # [] \<and> photo_filename ?r1 = Some ''a1'' \<and> ''a1'' \<noteq> []
          \<and> cache ?s3 ''a1'' = Some ''JPEG''"
    by (simp add: select_by_id_def)
  with t [of ?s3] have w3: "get_inventory_id_photo ''1'' False ?s3
                              = Reply 200 (Image_jpeg ''JPEG'')"
    by blast
  from w0 w1 w2 w3 show ?thesis by (intro conjI)
qed

section \<open>Partial update\<close>

text \<open>
  C6: for an existing item and queries that succeed, \<open>updateMetadata\<close> writes the row:
  in the stored row a field given as a string has the given value and an omitted field
  has its prior value, id and photo file name are untouched. The answer is 200 with the
  DTO of the stored row, and \<open>getById\<close> afterwards returns that same DTO. The files, the
  AUTO_INCREMENT value and the rows of other ids are untouched. With both fields omitted
  the DTO is that of the row before the update and the state is unchanged.
\<close>

theorem update_applies_provided_fields_only:
  assumes "parseInt10 idp = Some n" and "select_by_id n st = r # rs"
  shows "\<exists>d st' r' rs'. put_inventory_id idp b_name b_descr False False False st
                   = (Reply 200 (Json_item d), st')
           \<and> select_by_id n st' = r' # rs'
           \<and> row_id r' = row_id r
           \<and> photo_filename r' = photo_filename r
           \<and> (b_name = JUndefined \<longrightarrow> inventory_name r' = inventory_name r)
           \<and> (\<forall>s. b_name = JStr s \<longrightarrow> inventory_name r' = s)
           \<and> (b_descr = JUndefined \<longrightarrow> description r' = description r)
           \<and> (\<forall>s. b_descr = JStr s \<longrightarrow> description r' = Some s)
           \<and> d = itemToDto r'
           \<and> get_inventory_id idp False st' = Reply 200 (Json_item d)
           \<and> dto_id d = row_id r
           \<and> photoUrl d = photoUrl (itemToDto r)
           \<and> (b_name = JUndefined \<longrightarrow> dto_inventory_name d = inventory_name r)
           \<and> (\<forall>s. b_name = JStr s \<longrightarrow> dto_inventory_name d = s)
           \<and> (b_descr = JUndefined \<longrightarrow> dto_description d = description r)
           \<and> (\<forall>s. b_descr = JStr s \<longrightarrow> dto_description d = Some s)
           \<and> (b_name = JUndefined \<and> b_descr = JUndefined \<longrightarrow> d = itemToDto r \<and> st' = st)
           \<and> cache st' = cache st
           \<and> auto_increment st' = auto_increment st
           \<and> filter (\<lambda>x. row_id x \<noteq> n) (inventory st') = filter (\<lambda>x. row_id x \<noteq> n) (inventory st)"
proof -
  define upd where "upd = (\<lambda>x :: row.
       x\<lparr>inventory_name := coalesce (string_or_null b_name) (inventory_name x),
         description := (case string_or_null b_descr of
                           None \<Rightarrow> description x | Some d \<Rightarrow> Some d)\<rparr>)"
  define r' where "r' = upd r"
  define rs' where "rs' = map upd rs"
  define st' where "st' = update_metadata (string_or_null b_name) (string_or_null b_descr) n st"
  have run: "put_inventory_id idp b_name b_descr False False False st
               = (Reply 200 (Json_item (itemToDto r')), st')"
    unfolding r'_def upd_def st'_def by (rule put_inventory_id_found [OF assms])
  have sel: "select_by_id n st' = r' # rs'"
    unfolding st'_def r'_def rs'_def upd_def
    by (simp add: update_metadata_select assms(2))
  have s1: "row_id r' = row_id r" and s2: "photo_filename r' = photo_filename r"
    by (simp_all add: r'_def upd_def)
  have s3: "b_name = JUndefined \<longrightarrow> inventory_name r' = inventory_name r"
    by (simp add: r'_def upd_def string_or_null_JUndefined)
  have s4: "\<forall>s. b_name = JStr s \<longrightarrow> inventory_name r' = s"
    by (simp add: r'_def upd_def string_or_null_JStr)
  have s5: "b_descr = JUndefined \<longrightarrow> description r' = description r"
    by (simp add: r'_def upd_def string_or_null_JUndefined)
  have s6: "\<forall>s. b_descr = JStr s \<longrightarrow> description r' = Some s"
    by (simp add: r'_def upd_def string_or_null_JStr)
  have s7: "itemToDto r' = itemToDto r'"
    by (rule refl)
  have get: "get_inventory_id idp False st' = Reply 200 (Json_item (itemToDto r'))"
    by (simp add: get_inventory_id_def assms(1) sel)
  have c1: "dto_id (itemToDto r') = row_id r"
    by (simp add: itemToDto_def s1)
  have c2: "photoUrl (itemToDto r') = photoUrl (itemToDto r)"
    by (simp add: itemToDto_def s1 s2)
  have c3: "b_name = JUndefined \<longrightarrow> dto_inventory_name (itemToDto r') = inventory_name r"
    using s3 by (simp add: itemToDto_def)
  have c4: "\<forall>s. b_name = JStr s \<longrightarrow> dto_inventory_name (itemToDto r') = s"
    using s4 by (simp add: itemToDto_def)
  have c5: "b_descr = JUndefined \<longrightarrow> dto_description (itemToDto r') = description r"
    using s5 by (simp add: itemToDto_def)
  have c6: "\<forall>s. b_descr = JStr s \<longrightarrow> dto_description (itemToDto r') = Some s"
    using s6 by (simp add: itemToDto_def)
  have c7: "b_name = JUndefined \<and> b_descr = JUndefined \<longrightarrow> itemToDto r' = itemToDto r \<and> st' = st"
    by (simp add: r'_def upd_def st'_def string_or_null_JUndefined update_metadata_None_None)
  have c8: "cache st' = cache st"
    by (simp add: st'_def update_metadata_cache)
  have c9: "auto_increment st' = auto_increment st"
    by (simp add: st'_def update_metadata_def)
  have c10: "filter (\<lambda>x. row_id x \<noteq> n) (inventory st') = filter (\<lambda>x. row_id x \<noteq> n) (inventory st)"
    unfolding st'_def by (rule update_metadata_others)
  show ?thesis
    by (rule exI [of _ "itemToDto r'"], rule exI [of _ st'], rule exI [of _ r'],
        rule exI [of _ rs'])
       (intro conjI run sel s1 s2 s3 s4 s5 s6 s7 get c1 c2 c3 c4 c5 c6 c7 c8 c9 c10)
qed

theorem update_applies_provided_fields_only_witness:
  "(\<exists>d st'. put_inventory_id ''1'' (JStr ''Hammer'') JUndefined False False False
              \<lparr>inventory = [\<lparr>row_id = 1, inventory_name = ''Drill'',
                             description = Some ''Cordless'', photo_filename = None\<rparr>],
               auto_increment = 2, cache = Map.empty\<rparr>
            = (Reply 200 (Json_item d), st')
         \<and> d = \<lparr>dto_id = 1, dto_inventory_name = ''Hammer'', dto_description = Some ''Cordless'',
                photoUrl = None\<rparr>
         \<and> get_inventory_id ''1'' False st' = Reply 200 (Json_item d))
   \<and> (\<exists>d st'. put_inventory_id ''1'' JUndefined JUndefined False False False
              \<lparr>inventory = [\<lparr>row_id = 1, inventory_name = ''Drill'',
                             description = Some ''Cordless'', photo_filename = None\<rparr>],
               auto_increment = 2, cache = Map.empty\<rparr>
            = (Reply 200 (Json_item d), st')
         \<and> d = \<lparr>dto_id = 1, dto_inventory_name = ''Drill'', dto_description = Some ''Cordless'',
                photoUrl = None\<rparr>
         \<and> st' = \<lparr>inventory = [\<lparr>row_id = 1, inventory_name = ''Drill'',
                             description = Some ''Cordless'', photo_filename = None\<rparr>],
                   auto_increment = 2, cache = Map.empty\<rparr>)"
proof -
  let ?r = "\<lparr>row_id = 1, inventory_name = ''Drill'',
             description = Some ''Cordless'', photo_filename = None\<rparr>"
  let ?st = "\<lparr>inventory = [?r], auto_increment = 2, cache = Map.empty\<rparr>"
  have sel: "select_by_id 1 ?st = ?r # []"
    by (simp add: select_by_id_def)
  from update_applies_provided_fields_only [OF parseInt10_1 sel, of "JStr ''Hammer''" JUndefined]
  obtain d st' r' rs' where
      run: "put_inventory_id ''1'' (JStr ''Hammer'') JUndefined False False False ?st
              = (Reply 200 (Json_item d), st')"
    and f: "row_id r' = row_id ?r" "photo_filename r' = photo_filename ?r"
           "inventory_name r' = ''Hammer''" "description r' = description ?r"
    and d: "d = itemToDto r'"
    and get: "get_inventory_id ''1'' False st' = Reply 200 (Json_item d)"
    by (elim exE conjE) simp
  from d f have dv: "d = \<lparr>dto_id = 1, dto_inventory_name = ''Hammer'',
                          dto_description = Some ''Cordless'', photoUrl = None\<rparr>"
    by (simp add: itemToDto_def)
  have a: "\<exists>d st'. put_inventory_id ''1'' (JStr ''Hammer'') JUndefined False False False ?st
                      = (Reply 200 (Json_item d), st')
                  \<and> d = \<lparr>dto_id = 1, dto_inventory_name = ''Hammer'',
                         dto_description = Some ''Cordless'', photoUrl = None\<rparr>
                  \<and> get_inventory_id ''1'' False st' = Reply 200 (Json_item d)"
    by (rule exI [of _ d], rule exI [of _ st']) (intro conjI run dv get)
  from update_applies_provided_fields_only [OF parseInt10_1 sel, of JUndefined JUndefined]
  obtain d0 st0 where
      run0: "put_inventory_id ''1'' JUndefined JUndefined False False False ?st
              = (Reply 200 (Json_item d0), st0)"
    and same: "d0 = itemToDto ?r" "st0 = ?st"
    by (elim exE conjE) simp
  from same have d0v: "d0 = \<lparr>dto_id = 1, dto_inventory_name = ''Drill'',
                           dto_description = Some ''Cordless'', photoUrl = None\<rparr>"
    by (simp add: itemToDto_def)
  have b: "\<exists>d st'. put_inventory_id ''1'' JUndefined JUndefined False False False ?st
                      = (Reply 200 (Json_item d), st')
                  \<and> d = \<lparr>dto_id = 1, dto_inventory_name = ''Drill'',
                         dto_description = Some ''Cordless'', photoUrl = None\<rparr>
                  \<and> st' = ?st"
    by (rule exI [of _ d0], rule exI [of _ st0]) (intro conjI run0 d0v same(2))
  from a b show ?thesis by (intro conjI)
qed

section \<open>Registration\<close>

text \<open>
  C7: on a table that satisfies the AUTO_INCREMENT invariant, a \<open>register\<close> request
  with a name that is not blank, whose queries succeed, is answered 201 with a DTO, and
  \<open>getById\<close> on the id of that DTO returns the same DTO: its name is the submitted name
  trimmed, its description the submitted one (empty when omitted), and its photo URL is
  null exactly when no file was uploaded, and otherwise \<open>/inventory/{id}/photo\<close>, built
  from the id alone. The name multer gives an uploaded file is not empty.
\<close>

theorem register_then_getById:
  assumes "ids_below_auto_increment st"
    and "req_route req = Register" and "req_method req = ''POST''"
    and "form req ''inventory_name'' = Some name" and "trim name \<noteq> []"
    and "\<forall>f. req_file req = Some f \<longrightarrow> filename f \<noteq> []"
  shows "\<exists>d st'. dispatch req False False err3 st = (Reply 201 (Json_item d), st')
           \<and> get_inventory_id (show_int (dto_id d)) False st' = Reply 200 (Json_item d)
           \<and> dto_inventory_name d = trim name
           \<and> dto_description d = Some (or_empty (form req ''description''))
           \<and> (photoUrl d = None \<longleftrightarrow> req_file req = None)
           \<and> (req_file req \<noteq> None \<longrightarrow>
                photoUrl d = Some (''/inventory/'' @ show_int (dto_id d) @ ''/photo''))"
proof -
  define st0 where "st0 = multer_single (req_file req) st"
  define i where "i = auto_increment st"
  define r where "r = \<lparr>row_id = i, inventory_name = trim name,
                       description = Some (or_empty (form req ''description'')),
                       photo_filename = map_option filename (req_file req)\<rparr>"
  define st' where "st' = snd (insert_row (trim name) (or_empty (form req ''description''))
                                 (map_option filename (req_file req)) st0)"
  have i0: "auto_increment st0 = i"
    by (simp add: st0_def i_def multer_single_db)
  have "ids_below_auto_increment st0"
    using assms(1) by (simp add: ids_below_auto_increment_def st0_def multer_single_db)
  then have fresh: "select_by_id (auto_increment st0) st0 = []"
    by (rule select_fresh_id)
  have sel: "select_by_id i st' = [r]"
    using select_inserted [OF fresh] by (simp add: st'_def r_def i0)
  have nm: "name \<noteq> []"
    using assms(5) trim_Nil by auto
  have ins: "insert_row (trim name) (or_empty (form req ''description''))
               (map_option filename (req_file req)) st0 = (i, st')"
    by (simp add: st'_def insert_row_def i0)
  have reg: "post_register (Some name) (form req ''description'') (req_file req) False False st0
               = (Reply 201 (Json_item (itemToDto r)), st')"
    using nm assms(5) by (simp add: post_register_def ins sel)
  have run: "dispatch req False False err3 st = (Reply 201 (Json_item (itemToDto r)), st')"
    using assms(2,3,4) reg by (simp add: dispatch_def st0_def)
  have id: "dto_id (itemToDto r) = i"
    by (simp add: itemToDto_def r_def)
  have get: "get_inventory_id (show_int (dto_id (itemToDto r))) False st'
               = Reply 200 (Json_item (itemToDto r))"
    by (simp add: id get_inventory_id_def parseInt10_show_int sel)
  have c3: "dto_inventory_name (itemToDto r) = trim name"
    by (simp add: itemToDto_def r_def)
  have c4: "dto_description (itemToDto r) = Some (or_empty (form req ''description''))"
    by (simp add: itemToDto_def r_def)
  have c5: "photoUrl (itemToDto r) = None \<longleftrightarrow> req_file req = None"
    using assms(6) by (cases "req_file req") (simp_all add: itemToDto_def r_def)
  have c6: "req_file req \<noteq> None \<longrightarrow>
              photoUrl (itemToDto r) = Some (''/inventory/'' @ show_int (dto_id (itemToDto r)) @ ''/photo'')"
    using assms(6) by (cases "req_file req") (simp_all add: itemToDto_def r_def photo_url_def)
  show ?thesis
    by (rule exI [of _ "itemToDto r"], rule exI [of _ st']) (intro conjI run get c3 c4 c5 c6)
qed

theorem register_then_getById_witness:
  "\<exists>d st'. dispatch \<lparr>req_method = ''POST'', req_route = Register,
                      form = [''inventory_name'' \<mapsto> ''  Drill '', ''description'' \<mapsto> ''Cordless''],
                      json = (\<lambda>k. JUndefined), req_file = None\<rparr>
              False False False \<lparr>inventory = [], auto_increment = 1, cache = Map.empty\<rparr>
            = (Reply 201 (Json_item d), st')
         \<and> get_inventory_id (show_int (dto_id d)) False st' = Reply 200 (Json_item d)
         \<and> dto_inventory_name d = ''Drill''
         \<and> dto_description d = Some ''Cordless''
         \<and> photoUrl d = None"
proof -
  let ?req = "\<lparr>req_method = ''POST'', req_route = Register,
               form = [''inventory_name'' \<mapsto> ''  Drill '', ''description'' \<mapsto> ''Cordless''],
               json = (\<lambda>k. JUndefined), req_file = None\<rparr>"
  let ?st = "\<lparr>inventory = [], auto_increment = 1, cache = Map.empty\<rparr>"
  have t: "trim ''  Drill '' = ''Drill''"
    by (simp add: trim_def is_ws_def)
  have h1: "ids_below_auto_increment ?st"
    by (simp add: ids_below_auto_increment_def)
  have h2: "req_route ?req = Register" and h3: "req_method ?req = ''POST''"
    and h4: "form ?req ''inventory_name'' = Some ''  Drill ''"
    and h6: "\<forall>f. req_file ?req = Some f \<longrightarrow> filename f \<noteq> []"
    by simp_all
  have h5: "trim ''  Drill '' \<noteq> []"
    by (simp add: t)
  from register_then_getById [OF h1 h2 h3 h4 h5 h6, of False]
  show ?thesis by (simp add: t)
qed

text \<open>
  C8: a \<open>register\<close> request whose name is absent, empty or white space only is
  answered 400; no row is inserted, the uploaded file is gone from the cache directory,
  and no file is in the cache directory that was not there before.
\<close>

theorem blank_name_register_rejected:
  assumes "req_route req = Register" and "req_method req = ''POST''"
    and "case form req ''inventory_name'' of None \<Rightarrow> True | Some s \<Rightarrow> list_all is_ws s"
  shows "\<exists>st'. dispatch req err err2 err3 st
                 = (Reply 400 (Json_error ''inventory_name is required''), st')
           \<and> inventory st' = inventory st
           \<and> auto_increment st' = auto_increment st
           \<and> (\<forall>f. req_file req = Some f \<longrightarrow> cache st' (filename f) = None)
           \<and> (\<forall>g. cache st' g \<noteq> None \<longrightarrow> cache st' g = cache st g)"
proof -
  define st' where "st' = unlink_upload (req_file req) (multer_single (req_file req) st)"
  have blank: "\<not> truthy (form req ''inventory_name'')
               \<or> trim (or_empty (form req ''inventory_name'')) = []"
    using assms(3) by (cases "form req ''inventory_name''") (simp_all add: trim_all_ws)
  have "post_register (form req ''inventory_name'') (form req ''description'') (req_file req)
          err err2 (multer_single (req_file req) st)
          = (Reply 400 (Json_error ''inventory_name is required''), st')"
    using blank unfolding post_register_def st'_def by (simp add: Let_def)
  then have run: "dispatch req err err2 err3 st
                    = (Reply 400 (Json_error ''inventory_name is required''), st')"
    using assms(1,2) by (simp add: dispatch_def)
  have c1: "inventory st' = inventory st" and c2: "auto_increment st' = auto_increment st"
    by (simp_all add: st'_def unlink_upload_def unlink_def multer_single_def split: option.splits)
  have c3: "\<forall>f. req_file req = Some f \<longrightarrow> cache st' (filename f) = None"
    by (simp add: st'_def unlink_upload_def unlink_def multer_single_def)
  have c4: "\<forall>g. cache st' g \<noteq> None \<longrightarrow> cache st' g = cache st g"
    by (simp add: st'_def unlink_upload_def unlink_def multer_single_def split: option.splits)
  show ?thesis
    by (rule exI [of _ st']) (intro conjI run c1 c2 c3 c4)
qed

theorem blank_name_register_rejected_witness:
  "\<exists>st'. dispatch \<lparr>req_method = ''POST'', req_route = Register,
                    form = [''inventory_name'' \<mapsto> ''   ''],
                    json = (\<lambda>k. JUndefined),
                    req_file = Some \<lparr>filename = ''f1'', content = ''JPEG''\<rparr>\<rparr>
            False False False \<lparr>inventory = [], auto_increment = 1, cache = Map.empty\<rparr>
          = (Reply 400 (Json_error ''inventory_name is required''), st')
       \<and> inventory st' = []
       \<and> auto_increment st' = 1
       \<and> cache st' ''f1'' = None"
proof -
  let ?req = "\<lparr>req_method = ''POST'', req_route = Register,
               form = [''inventory_name'' \<mapsto> ''   ''],
               json = (\<lambda>k. JUndefined),
               req_file = Some \<lparr>filename = ''f1'', content = ''JPEG''\<rparr>\<rparr>"
  have h1: "req_route ?req = Register" and h2: "req_method ?req = ''POST''"
    by simp_all
  have h3: "case form ?req ''inventory_name'' of None \<Rightarrow> True | Some s \<Rightarrow> list_all is_ws s"
    by (simp add: is_ws_def)
  from blank_name_register_rejected [OF h1 h2 h3, of False False False
         "\<lparr>inventory = [], auto_increment = 1, cache = Map.empty\<rparr>"]
  obtain st' where "dispatch ?req False False False
                      \<lparr>inventory = [], auto_increment = 1, cache = Map.empty\<rparr>
                    = (Reply 400 (Json_error ''inventory_name is required''), st')"
    and "inventory st' = []" and "auto_increment st' = 1"
    and "\<forall>f. req_file ?req = Some f \<longrightarrow> cache st' (filename f) = None"
    by (elim exE conjE) simp
  then show ?thesis
    by (intro exI [of _ st'] conjI) simp_all
qed

section \<open>Method guards\<close>

text \<open>
  C9: on each of the five paths, a request whose method is not one of those listed for
  the path is answered 405 Method Not Allowed (not 404), and nothing is changed.
\<close>

theorem unlisted_method_is_405:
  assumes "req_method req \<notin> set (case req_route req of
              Register \<Rightarrow> [''POST'']
            | Inventory \<Rightarrow> [''GET'']
            | Inventory_id idp \<Rightarrow> [''GET'', ''PUT'', ''DELETE'']
            | Inventory_id_photo idp \<Rightarrow> [''GET'', ''PUT'']
            | Search \<Rightarrow> [''POST''])"
  shows "dispatch req err err2 err3 st = (Reply 405 (Sent ''Method Not Allowed''), st)"
  using assms by (cases "req_route req") (simp_all add: dispatch_def method_not_allowed_def)

theorem unlisted_method_is_405_witness:
  "dispatch \<lparr>req_method = ''DELETE'', req_route = Inventory_id_photo ''7'',
             form = (\<lambda>k. None), json = (\<lambda>k. JUndefined), req_file = None\<rparr>
     False False False \<lparr>inventory = [], auto_increment = 1, cache = Map.empty\<rparr>
   = (Reply 405 (Sent ''Method Not Allowed''),
      \<lparr>inventory = [], auto_increment = 1, cache = Map.empty\<rparr>)"
  using unlisted_method_is_405
    [of "\<lparr>req_method = ''DELETE'', req_route = Inventory_id_photo ''7'',
             form = (\<lambda>k. None), json = (\<lambda>k. JUndefined), req_file = None\<rparr>"
        False False False "\<lparr>inventory = [], auto_increment = 1, cache = Map.empty\<rparr>"]
  by simp

section \<open>Fields that are not strings\<close>

text \<open>
  C10: in \<open>updateMetadata\<close> on an existing id, a field \<open>inventory_name\<close> or
  \<open>description\<close> whose value is not a string (a number, a boolean, null, an object) is
  treated exactly as an omitted field: the request behaves as it would without the field,
  and when the queries succeed the answer is 200 with the prior value of that field, not
  a validation error.
\<close>

theorem non_string_field_is_omitted:
  assumes "parseInt10 idp = Some n" and "select_by_id n st = r # rs"
  shows "(typeof b_name \<noteq> ''string'' \<longrightarrow>
            put_inventory_id idp b_name b_descr err err2 err3 st
              = put_inventory_id idp JUndefined b_descr err err2 err3 st
          \<and> (\<exists>d st'. put_inventory_id idp b_name b_descr False False False st
                        = (Reply 200 (Json_item d), st')
                    \<and> dto_inventory_name d = inventory_name r))
       \<and> (typeof b_descr \<noteq> ''string'' \<longrightarrow>
            put_inventory_id idp b_name b_descr err err2 err3 st
              = put_inventory_id idp b_name JUndefined err err2 err3 st
          \<and> (\<exists>d st'. put_inventory_id idp b_name b_descr False False False st
                        = (Reply 200 (Json_item d), st')
                    \<and> dto_description d = description r))"
proof (intro conjI impI)
  assume t: "typeof b_name \<noteq> ''string''"
  then have e: "string_or_null b_name = string_or_null JUndefined"
    by (simp add: string_or_null_non_string string_or_null_JUndefined)
  show "put_inventory_id idp b_name b_descr err err2 err3 st
              = put_inventory_id idp JUndefined b_descr err err2 err3 st"
    unfolding put_inventory_id_def e by (rule refl)
  show "\<exists>d st'. put_inventory_id idp b_name b_descr False False False st
                        = (Reply 200 (Json_item d), st')
                    \<and> dto_inventory_name d = inventory_name r"
    unfolding put_inventory_id_found [OF assms]
    using t by (simp add: itemToDto_def string_or_null_non_string)
next
  assume t: "typeof b_descr \<noteq> ''string''"
  then have e: "string_or_null b_descr = string_or_null JUndefined"
    by (simp add: string_or_null_non_string string_or_null_JUndefined)
  show "put_inventory_id idp b_name b_descr err err2 err3 st
              = put_inventory_id idp b_name JUndefined err err2 err3 st"
    unfolding put_inventory_id_def e by (rule refl)
  show "\<exists>d st'. put_inventory_id idp b_name b_descr False False False st
                        = (Reply 200 (Json_item d), st')
                    \<and> dto_description d = description r"
    unfolding put_inventory_id_found [OF assms]
    using t by (simp add: itemToDto_def string_or_null_non_string)
qed

theorem non_string_field_is_omitted_witness:
  "typeof (JNum 5) \<noteq> ''string'' \<and> typeof JNull \<noteq> ''string''
   \<and> (\<exists>d st'. put_inventory_id ''1'' (JNum 5) JNull False False False
              \<lparr>inventory = [\<lparr>row_id = 1, inventory_name = ''Drill'',
                             description = Some ''Cordless'', photo_filename = None\<rparr>],
               auto_increment = 2, cache = Map.empty\<rparr>
            = (Reply 200 (Json_item d), st')
         \<and> dto_inventory_name d = ''Drill'')
   \<and> (\<exists>d st'. put_inventory_id ''1'' (JNum 5) JNull False False False
              \<lparr>inventory = [\<lparr>row_id = 1, inventory_name = ''Drill'',
                             description = Some ''Cordless'', photo_filename = None\<rparr>],
               auto_increment = 2, cache = Map.empty\<rparr>
            = (Reply 200 (Json_item d), st')
         \<and> dto_description d = Some ''Cordless'')"
proof -
  let ?r = "\<lparr>row_id = 1, inventory_name = ''Drill'',
             description = Some ''Cordless'', photo_filename = None\<rparr>"
  let ?st = "\<lparr>inventory = [?r], auto_increment = 2, cache = Map.empty\<rparr>"
  have sel: "select_by_id 1 ?st = ?r # []"
    by (simp add: select_by_id_def)
  have t1: "typeof (JNum 5) \<noteq> ''string''" and t2: "typeof JNull \<noteq> ''string''"
    by simp_all
  note w = non_string_field_is_omitted [OF parseInt10_1 sel, of "JNum 5" JNull False False False]
  from w t1 have a: "\<exists>d st'. put_inventory_id ''1'' (JNum 5) JNull False False False ?st
                        = (Reply 200 (Json_item d), st')
                    \<and> dto_inventory_name d = inventory_name ?r"
    by blast
  from w t2 have b: "\<exists>d st'. put_inventory_id ''1'' (JNum 5) JNull False False False ?st
                        = (Reply 200 (Json_item d), st')
                    \<and> dto_description d = description ?r"
    by blast
  from a b t1 t2 show ?thesis by simp
qed

end
